theory Spec2Isabelle
  imports Main
begin

section \<open>Values, exceptions and collaborators of \<open>src/Application.js\<close>\<close>

text \<open>
  The module \<open>Application.js\<close> is one constructor, one helper (\<open>initMembers\<close>) and a
  handful of property accessors. Everything else it touches is a collaborator that lives
  outside the file: Node's \<open>path\<close> module, ShellJS, \<open>CommandParser.validatePackageId\<close>,
  \<open>LogfileOutput\<close>, \<open>OutputTee\<close> and \<open>TerminalOutput\<close>. The constructor is embedded as a
  function of an explicit world state \<open>'w\<close> (the filesystem and whatever else the
  collaborators touch); the collaborators are the fields of an environment record, so
  that every theorem about the constructor holds for whatever they compute.
\<close>

text \<open>
  A \<open>LogfileOutput\<close> object is a reference (its identity) together with the file path it
  was constructed with. Two objects are the same object exactly when they are equal.
\<close>

datatype LogfileOutput = LogfileOutput (sink_ref: nat) (sink_path: string)

datatype TerminalOutput = TerminalOutput nat

text \<open>
  The JavaScript values that can reach the code: what the package-id validator may
  return and what a caller may assign to a property. Numbers are left out.
\<close>

datatype jsval =
    JUndefined
  | JNull
  | JBool bool
  | JStr string
  | JLogfileOutput LogfileOutput
  | JObject nat

text \<open>JavaScript truthiness, as tested by \<open>if (x)\<close> and \<open>!x\<close>.\<close>

fun truthy :: "jsval \<Rightarrow> bool" where
  "truthy JUndefined = False"
| "truthy JNull = False"
| "truthy (JBool b) = b"
| "truthy (JStr s) = (s \<noteq> [])"
| "truthy (JLogfileOutput _) = True"
| "truthy (JObject _) = True"

text \<open>
  String conversion, as performed by \<open>string + value\<close>. Objects are taken to inherit
  \<open>Object.prototype.toString\<close>.
\<close>

fun js_to_string :: "jsval \<Rightarrow> string" where
  "js_to_string JUndefined = ''undefined''"
| "js_to_string JNull = ''null''"
| "js_to_string (JBool b) = (if b then ''true'' else ''false'')"
| "js_to_string (JStr s) = s"
| "js_to_string (JLogfileOutput _) = ''[object Object]''"
| "js_to_string (JObject _) = ''[object Object]''"

text \<open>
  Exceptions carry their message. \<open>Thrown\<close> stands for any exception raised by a
  collaborator that is not one of the two classes this file throws itself.
\<close>

datatype exn =
    InvalidPathException string
  | IllegalAccessException string
  | Thrown string

text \<open>
  The collaborators. \<open>ShellJS.mkdir\<close> and \<open>ShellJS.rm\<close> report failures on the console
  and return; they do not throw, so they are total world transformers.
  \<open>CommandParser.validatePackageId\<close> returns a value or throws; the constructor passes
  it \<open>this.output\<close>, which is still \<open>undefined\<close> at that point. \<open>new LogfileOutput(path)\<close>
  may touch the world and may throw.
\<close>

record 'w env =
  path_resolve :: "string \<Rightarrow> string"
  path_normalize :: "string \<Rightarrow> string"
  path_basename :: "string \<Rightarrow> string"
  path_dirname :: "string \<Rightarrow> string"
  path_join :: "string \<Rightarrow> string \<Rightarrow> string"
  path_sep :: "string"
  shell_test_d :: "'w \<Rightarrow> string \<Rightarrow> bool"
  shell_mkdir :: "string \<Rightarrow> 'w \<Rightarrow> 'w"
  shell_rm_f :: "string \<Rightarrow> 'w \<Rightarrow> 'w"
  validatePackageId :: "string \<Rightarrow> exn + jsval"
  new_LogfileOutput :: "string \<Rightarrow> 'w \<Rightarrow> 'w \<times> (exn + LogfileOutput)"
  TerminalOutput_getInstance :: "TerminalOutput"

text \<open>
  Modelled from the spec: \<open>OutputTee\<close> (its file is not part of the sources). The spec
  describes a fan-out writer holding two sink handles, a fixed terminal sink and a
  swappable logfile sink; \<open>new OutputTee(logfile, terminal)\<close> stores both, and assigning
  to its \<open>logfileOutput\<close> property replaces the logfile sink only.
\<close>

record OutputTee =
  logfileOutput :: LogfileOutput
  terminalOutput :: TerminalOutput

definition new_OutputTee :: "LogfileOutput \<Rightarrow> TerminalOutput \<Rightarrow> OutputTee" where
  "new_OutputTee l t = \<lparr>logfileOutput = l, terminalOutput = t\<rparr>"

section \<open>The Application object\<close>

text \<open>
  The members written by the first half of the constructor (\<open>this._packageId\<close> and the
  five paths set by \<open>initMembers\<close>), and the full object with the three logging members
  written by the second half.
\<close>

record members =
  this_packageId :: jsval
  this_rootPath :: string
  this_appPath :: string
  this_logPath :: string
  this_pkgPath :: string
  this_prjPath :: string

record application = members +
  this_logfileOutput :: LogfileOutput
  this_platformLogfileOutput :: "LogfileOutput option"
  this_output :: OutputTee

text \<open>
  \<open>initMembers.call(this, basePath)\<close>, lines 96-107: reads \<open>this._packageId\<close> and
  writes the five paths by string concatenation with \<open>Path.sep\<close>.
\<close>

definition initMembers :: "'w env \<Rightarrow> jsval \<Rightarrow> string \<Rightarrow> members" where
  "initMembers env packageId basePath =
     (let rootPath = basePath @ path_sep env @ js_to_string packageId in
      \<lparr>this_packageId = packageId,
       this_rootPath = rootPath,
       this_appPath = rootPath @ path_sep env @ ''app'',
       this_logPath = rootPath @ path_sep env @ ''log'',
       this_pkgPath = rootPath @ path_sep env @ ''pkg'',
       this_prjPath = rootPath @ path_sep env @ ''prj''\<rparr>)"

text \<open>The five paths of an object, in the order the constructor checks them.\<close>

definition fivePaths :: "'a members_scheme \<Rightarrow> string list" where
  "fivePaths this =
     [this_rootPath this, this_appPath this, this_logPath this,
      this_pkgPath this, this_prjPath this]"

text \<open>Lines 28-35: \<open>cwd\<close> must be absolute and exist.\<close>

definition checkCwd :: "'w env \<Rightarrow> 'w \<Rightarrow> string \<Rightarrow> exn option" where
  "checkCwd env w cwd =
     (if cwd = [] \<or> path_resolve env cwd \<noteq> path_normalize env cwd
      then Some (InvalidPathException (''Path not absolute: '' @ cwd))
      else if \<not> shell_test_d env w cwd
      then Some (InvalidPathException (''Path does not exist: '' @ cwd))
      else None)"

text \<open>Lines 50-54: the five \<open>ShellJS.mkdir\<close> calls, root first.\<close>

definition mkdirSkeleton :: "'w env \<Rightarrow> members \<Rightarrow> 'w \<Rightarrow> 'w" where
  "mkdirSkeleton env this w =
     shell_mkdir env (this_prjPath this)
       (shell_mkdir env (this_pkgPath this)
         (shell_mkdir env (this_logPath this)
           (shell_mkdir env (this_appPath this)
             (shell_mkdir env (this_rootPath this) w))))"

text \<open>
  Lines 38-54, the branch taken when \<open>packageId\<close> is truthy: validate, compute the
  paths from \<open>cwd\<close>, refuse an existing root, create the skeleton.
\<close>

definition createBranch :: "'w env \<Rightarrow> 'w \<Rightarrow> string \<Rightarrow> string \<Rightarrow> 'w \<times> (exn + members)" where
  "createBranch env w cwd packageId =
     (case validatePackageId env packageId of
        Inl e \<Rightarrow> (w, Inl e)
      | Inr v \<Rightarrow>
          (let this = initMembers env v cwd in
           if shell_test_d env w (this_rootPath this)
           then (w, Inl (InvalidPathException
                   (''Failed to create project, path already exists: '' @ this_rootPath this)))
           else (mkdirSkeleton env this w, Inr this)))"

text \<open>
  Lines 56-67, the branch taken otherwise: the package id is the validated basename of
  \<open>cwd\<close>, which must be truthy, and the paths are computed from the parent of \<open>cwd\<close>.
\<close>

definition loadBranch :: "'w env \<Rightarrow> 'w \<Rightarrow> string \<Rightarrow> 'w \<times> (exn + members)" where
  "loadBranch env w cwd =
     (case validatePackageId env (path_basename env cwd) of
        Inl e \<Rightarrow> (w, Inl e)
      | Inr v \<Rightarrow>
          if \<not> truthy v
          then (w, Inl (InvalidPathException
                  (''Path does not seem to be a project toplevel: '' @ cwd)))
          else (w, Inr (initMembers env v (path_dirname env cwd))))"

text \<open>
  Line 38, \<open>if (packageId)\<close>: the optional argument is truthy when it is passed and is
  not the empty string.
\<close>

definition branch :: "'w env \<Rightarrow> 'w \<Rightarrow> string \<Rightarrow> string option \<Rightarrow> 'w \<times> (exn + members)" where
  "branch env w cwd packageId =
     (case packageId of
        Some p \<Rightarrow> if p \<noteq> [] then createBranch env w cwd p else loadBranch env w cwd
      | None \<Rightarrow> loadBranch env w cwd)"

text \<open>Lines 69-84: the five paths are tested in order; the first missing one throws.\<close>

fun checkPaths :: "'w env \<Rightarrow> 'w \<Rightarrow> string list \<Rightarrow> exn option" where
  "checkPaths env w [] = None"
| "checkPaths env w (p # ps) =
     (if \<not> shell_test_d env w p
      then Some (InvalidPathException (''Failed to load, invalid path: '' @ p))
      else checkPaths env w ps)"

text \<open>
  Lines 86-93: remove the old common logfile, construct the common sink, start with no
  platform sink, and construct the tee over the common sink and the terminal singleton.
\<close>

definition setupLogging :: "'w env \<Rightarrow> 'w \<Rightarrow> members \<Rightarrow> 'w \<times> (exn + application)" where
  "setupLogging env w this =
     (let logfilePath = path_join env (this_logPath this) ''common.log'';
          w1 = shell_rm_f env logfilePath w
      in case new_LogfileOutput env logfilePath w1 of
           (w2, Inl e) \<Rightarrow> (w2, Inl e)
         | (w2, Inr sink) \<Rightarrow>
             (w2, Inr \<lparr>this_packageId = this_packageId this,
                       this_rootPath = this_rootPath this,
                       this_appPath = this_appPath this,
                       this_logPath = this_logPath this,
                       this_pkgPath = this_pkgPath this,
                       this_prjPath = this_prjPath this,
                       this_logfileOutput = sink,
                       this_platformLogfileOutput = None,
                       this_output = new_OutputTee sink (TerminalOutput_getInstance env)\<rparr>))"

text \<open>
  The constructor, lines 26-94. The result is the world it leaves behind and either the
  exception it threw or the constructed object.
\<close>

definition Application :: "'w env \<Rightarrow> 'w \<Rightarrow> string \<Rightarrow> string option \<Rightarrow> 'w \<times> (exn + application)" where
  "Application env w cwd packageId =
     (case checkCwd env w cwd of
        Some e \<Rightarrow> (w, Inl e)
      | None \<Rightarrow>
          (case branch env w cwd packageId of
             (w1, Inl e) \<Rightarrow> (w1, Inl e)
           | (w1, Inr this) \<Rightarrow>
               (case checkPaths env w1 (fivePaths this) of
                  Some e \<Rightarrow> (w1, Inl e)
                | None \<Rightarrow> setupLogging env w1 this)))"

subsection \<open>Property accessors\<close>

text \<open>
  A property write returns the object after the write and either the exception thrown
  or nothing. Lines 188-195 (\<open>config\<close>), 206-229 (\<open>platformLogfileOutput\<close>) and 238-245
  (\<open>output\<close>).
\<close>

definition set_config :: "application \<Rightarrow> jsval \<Rightarrow> application \<times> (exn + unit)" where
  "set_config this config =
     (this, Inl (IllegalAccessException
        ''Attempting to write read-only property Application.config''))"

definition get_output :: "application \<Rightarrow> OutputTee" where
  "get_output this = this_output this"

definition set_output :: "application \<Rightarrow> jsval \<Rightarrow> application \<times> (exn + unit)" where
  "set_output this output =
     (this, Inl (IllegalAccessException
        ''Attempting to write read-only property Application.output''))"

definition get_platformLogfileOutput :: "application \<Rightarrow> jsval" where
  "get_platformLogfileOutput this =
     (case this_platformLogfileOutput this of None \<Rightarrow> JNull | Some s \<Rightarrow> JLogfileOutput s)"

fun set_platformLogfileOutput :: "application \<Rightarrow> jsval \<Rightarrow> application \<times> (exn + unit)" where
  "set_platformLogfileOutput this (JLogfileOutput s) =
     (this\<lparr>this_platformLogfileOutput := Some s,
            this_output := (get_output this)\<lparr>logfileOutput := s\<rparr>\<rparr>, Inr ())"
| "set_platformLogfileOutput this JNull =
     (this\<lparr>this_platformLogfileOutput := None,
            this_output := (get_output this)\<lparr>logfileOutput := this_logfileOutput this\<rparr>\<rparr>, Inr ())"
| "set_platformLogfileOutput this v =
     (this, Inl (IllegalAccessException
        ''Attempting invalid write to property Application.platformLogfileOutput''))"

text \<open>
  A caller's sequence of assignments to \<open>platformLogfileOutput\<close>; an assignment that
  throws leaves the object as it is and the caller goes on.
\<close>

fun assignAll :: "application \<Rightarrow> jsval list \<Rightarrow> application" where
  "assignAll this [] = this"
| "assignAll this (v # vs) = assignAll (fst (set_platformLogfileOutput this v)) vs"

text \<open>The first six members of a constructed object.\<close>

definition membersOf :: "application \<Rightarrow> members" where
  "membersOf app =
     \<lparr>this_packageId = this_packageId app,
      this_rootPath = this_rootPath app,
      this_appPath = this_appPath app,
      this_logPath = this_logPath app,
      this_pkgPath = this_pkgPath app,
      this_prjPath = this_prjPath app\<rparr>"

text \<open>
  The one assumption some theorems make about the filesystem collaborators: a path
  that is a directory is still one after \<open>mkdir\<close> of any path, after \<open>rm -f\<close> of any
  path (without \<open>-r\<close>, \<open>rm\<close> does not remove directories) and after a logfile sink has
  been constructed.
\<close>

definition dirs_persist :: "'w env \<Rightarrow> bool" where
  "dirs_persist env =
     (\<forall>w p q. shell_test_d env w p \<longrightarrow>
        shell_test_d env (shell_mkdir env q w) p \<and>
        shell_test_d env (shell_rm_f env q w) p \<and>
        shell_test_d env (fst (new_LogfileOutput env q w)) p)"

text \<open>
  The routing invariant of a constructed object: the tee's logfile sink is the platform
  sink when one is set and the common sink otherwise.
\<close>

definition routed :: "application \<Rightarrow> bool" where
  "routed this =
     (logfileOutput (this_output this) =
        (case this_platformLogfileOutput this of
           None \<Rightarrow> this_logfileOutput this
         | Some s \<Rightarrow> s))"

section \<open>A POSIX instance of the collaborators\<close>

text \<open>
  An executable instance of the environment, used to run the constructor on concrete
  inputs. Node's \<open>path\<close> module and ShellJS are libraries, not part of the sources; the
  path functions here follow Node's documented POSIX behaviour: \<open>normalize\<close> and
  \<open>resolve\<close> split at slashes, drop empty and \<open>.\<close> segments and cancel \<open>..\<close> against the
  segment before it; \<open>resolve\<close> first prefixes the process working directory to a
  relative path and never keeps a trailing slash, \<open>normalize\<close> keeps one; \<open>basename\<close> is
  the last segment and \<open>dirname\<close> what precedes it, both ignoring trailing slashes.
\<close>

fun splitSlash :: "string \<Rightarrow> string list" where
  "splitSlash [] = [[]]"
| "splitSlash (c # cs) =
     (if c = CHR ''/'' then [] # splitSlash cs
      else (case splitSlash cs of [] \<Rightarrow> [[c]] | s # ss \<Rightarrow> (c # s) # ss))"

fun joinSlash :: "string list \<Rightarrow> string" where
  "joinSlash [] = []"
| "joinSlash [s] = s"
| "joinSlash (s # ss) = s @ ''/'' @ joinSlash ss"

fun normalizeArray :: "bool \<Rightarrow> string list \<Rightarrow> string list \<Rightarrow> string list" where
  "normalizeArray allowAboveRoot acc [] = rev acc"
| "normalizeArray allowAboveRoot acc (s # ss) =
     (if s = ''.'' then normalizeArray allowAboveRoot acc ss
      else if s = ''..'' then
        (case acc of
           [] \<Rightarrow> normalizeArray allowAboveRoot (if allowAboveRoot then [''..''] else []) ss
         | t # ts \<Rightarrow>
             if t = ''..'' then normalizeArray allowAboveRoot (''..'' # acc) ss
             else normalizeArray allowAboveRoot ts ss)
      else normalizeArray allowAboveRoot (s # acc) ss)"

definition normalizeSegments :: "bool \<Rightarrow> string \<Rightarrow> string" where
  "normalizeSegments allowAboveRoot p =
     joinSlash (normalizeArray allowAboveRoot [] (filter (\<lambda>s. s \<noteq> []) (splitSlash p)))"

definition posix_normalize :: "string \<Rightarrow> string" where
  "posix_normalize p =
     (let isAbsolute = (p \<noteq> [] \<and> hd p = CHR ''/'');
          trailingSlash = (p \<noteq> [] \<and> last p = CHR ''/'');
          path = normalizeSegments (\<not> isAbsolute) p;
          path1 = (if path = [] \<and> \<not> isAbsolute then ''.'' else path);
          path2 = (if path1 \<noteq> [] \<and> trailingSlash then path1 @ ''/'' else path1)
      in (if isAbsolute then ''/'' else []) @ path2)"

text \<open>\<open>Path.resolve(p)\<close> in a process whose working directory is \<open>pcwd\<close>.\<close>

definition posix_resolve :: "string \<Rightarrow> string \<Rightarrow> string" where
  "posix_resolve pcwd p =
     (let resolvedPath1 = (if p = [] then [] else p @ ''/'');
          absolute1 = (p \<noteq> [] \<and> hd p = CHR ''/'');
          resolvedPath = (if absolute1 \<or> pcwd = [] then resolvedPath1
                          else pcwd @ ''/'' @ resolvedPath1);
          resolvedAbsolute = (absolute1 \<or> (pcwd \<noteq> [] \<and> hd pcwd = CHR ''/''));
          s = (if resolvedAbsolute then ''/'' else []) @
              normalizeSegments (\<not> resolvedAbsolute) resolvedPath
      in if s = [] then ''.'' else s)"

definition posix_basename :: "string \<Rightarrow> string" where
  "posix_basename p =
     rev (takeWhile (\<lambda>c. c \<noteq> CHR ''/'') (dropWhile (\<lambda>c. c = CHR ''/'') (rev p)))"

definition posix_dirname :: "string \<Rightarrow> string" where
  "posix_dirname p =
     (let q = dropWhile (\<lambda>c. c = CHR ''/'') (rev p);
          r = dropWhile (\<lambda>c. c \<noteq> CHR ''/'') q;
          d = rev (tl r)
      in if d = [] then (if p \<noteq> [] \<and> hd p = CHR ''/'' then ''/'' else ''.'') else d)"

definition posix_join :: "string \<Rightarrow> string \<Rightarrow> string" where
  "posix_join a b =
     (if a = [] \<and> b = [] then ''.''
      else if a = [] then posix_normalize b
      else if b = [] then posix_normalize a
      else posix_normalize (a @ ''/'' @ b))"

text \<open>
  A filesystem without symbolic links: the directories and the files, each under its
  resolved absolute path, and the next free object reference. \<open>mkdir\<close> creates one
  directory whose parent exists and does nothing otherwise; \<open>rm -f\<close> removes a file
  and leaves directories alone.
\<close>

record posix_world =
  fs_dirs :: "string list"
  fs_files :: "string list"
  next_ref :: nat

definition posix_test_d :: "string \<Rightarrow> posix_world \<Rightarrow> string \<Rightarrow> bool" where
  "posix_test_d pcwd w p = (p \<noteq> [] \<and> posix_resolve pcwd p \<in> set (fs_dirs w))"

definition posix_mkdir :: "string \<Rightarrow> string \<Rightarrow> posix_world \<Rightarrow> posix_world" where
  "posix_mkdir pcwd p w =
     (let q = posix_resolve pcwd p in
      if p = [] \<or> q \<in> set (fs_dirs w) \<or> q \<in> set (fs_files w) \<or>
         posix_dirname q \<notin> set (fs_dirs w)
      then w
      else w\<lparr>fs_dirs := fs_dirs w @ [q]\<rparr>)"

definition posix_rm_f :: "string \<Rightarrow> string \<Rightarrow> posix_world \<Rightarrow> posix_world" where
  "posix_rm_f pcwd p w =
     (if p = [] then w else w\<lparr>fs_files := removeAll (posix_resolve pcwd p) (fs_files w)\<rparr>)"

text \<open>
  Modelled from the spec: the \<open>LogfileOutput\<close> constructor (its file is not part of the
  sources). Given a file path it returns a new sink bound to that path, and the common
  logfile exists, empty, afterwards.
\<close>

definition posix_new_LogfileOutput ::
    "string \<Rightarrow> string \<Rightarrow> posix_world \<Rightarrow> posix_world \<times> (exn + LogfileOutput)" where
  "posix_new_LogfileOutput pcwd p w =
     (let q = posix_resolve pcwd p in
      (w\<lparr>fs_files :=
            (if p = [] \<or> q \<in> set (fs_dirs w) \<or> q \<in> set (fs_files w) \<or>
                posix_dirname q \<notin> set (fs_dirs w)
             then fs_files w else fs_files w @ [q]),
          next_ref := Suc (next_ref w)\<rparr>,
       Inr (LogfileOutput (next_ref w) p)))"

definition posix_env ::
    "string \<Rightarrow> (string \<Rightarrow> exn + jsval) \<Rightarrow> TerminalOutput \<Rightarrow> posix_world env" where
  "posix_env pcwd validate terminal =
     \<lparr>path_resolve = posix_resolve pcwd,
      path_normalize = posix_normalize,
      path_basename = posix_basename,
      path_dirname = posix_dirname,
      path_join = posix_join,
      path_sep = ''/'',
      shell_test_d = posix_test_d pcwd,
      shell_mkdir = posix_mkdir pcwd,
      shell_rm_f = posix_rm_f pcwd,
      validatePackageId = validate,
      new_LogfileOutput = posix_new_LogfileOutput pcwd,
      TerminalOutput_getInstance = terminal\<rparr>"

text \<open>
  The inputs of the examples: a stand-in validator that returns an identifier with a
  period in it and answers \<open>null\<close> to anything else, a process started in
  \<open>/home/user\<close>, and a filesystem holding the empty directory \<open>/work\<close>.
\<close>

definition demo_validate :: "string \<Rightarrow> exn + jsval" where
  "demo_validate s = (if CHR ''.'' \<in> set s then Inr (JStr s) else Inr JNull)"

definition demo_env :: "posix_world env" where
  "demo_env = posix_env ''/home/user'' demo_validate (TerminalOutput 0)"

definition demo_world :: "posix_world" where
  "demo_world =
     \<lparr>fs_dirs = [''/'', ''/home'', ''/home/user'', ''/work''], fs_files = [], next_ref = 1\<rparr>"

text \<open>The world and the object after creating \<open>com.example.foo\<close> under \<open>/work\<close>.\<close>

definition demo_created_world :: "posix_world" where
  "demo_created_world =
     \<lparr>fs_dirs = [''/'', ''/home'', ''/home/user'', ''/work'', ''/work/com.example.foo'',
                 ''/work/com.example.foo/app'', ''/work/com.example.foo/log'',
                 ''/work/com.example.foo/pkg'', ''/work/com.example.foo/prj''],
      fs_files = [''/work/com.example.foo/log/common.log''],
      next_ref = 2\<rparr>"

definition demo_members :: "members" where
  "demo_members =
     \<lparr>this_packageId = JStr ''com.example.foo'',
      this_rootPath = ''/work/com.example.foo'',
      this_appPath = ''/work/com.example.foo/app'',
      this_logPath = ''/work/com.example.foo/log'',
      this_pkgPath = ''/work/com.example.foo/pkg'',
      this_prjPath = ''/work/com.example.foo/prj''\<rparr>"

definition demo_app :: "application" where
  "demo_app =
     \<lparr>this_packageId = JStr ''com.example.foo'',
      this_rootPath = ''/work/com.example.foo'',
      this_appPath = ''/work/com.example.foo/app'',
      this_logPath = ''/work/com.example.foo/log'',
      this_pkgPath = ''/work/com.example.foo/pkg'',
      this_prjPath = ''/work/com.example.foo/prj'',
      this_logfileOutput = LogfileOutput 1 ''/work/com.example.foo/log/common.log'',
      this_platformLogfileOutput = None,
      this_output =
        \<lparr>logfileOutput = LogfileOutput 1 ''/work/com.example.foo/log/common.log'',
         terminalOutput = TerminalOutput 0\<rparr>\<rparr>"

text \<open>The same project loaded again from its root directory.\<close>

definition demo_loaded_world :: "posix_world" where
  "demo_loaded_world = demo_created_world\<lparr>next_ref := 3\<rparr>"

definition demo_loaded_app :: "application" where
  "demo_loaded_app =
     demo_app\<lparr>this_logfileOutput := LogfileOutput 2 ''/work/com.example.foo/log/common.log'',
              this_output :=
                \<lparr>logfileOutput = LogfileOutput 2 ''/work/com.example.foo/log/common.log'',
                 terminalOutput = TerminalOutput 0\<rparr>\<rparr>"

text \<open>The project loaded through a path with a doubled slash.\<close>

definition demo_noncanonical_app :: "application" where
  "demo_noncanonical_app =
     \<lparr>this_packageId = JStr ''com.example.foo'',
      this_rootPath = ''/work//com.example.foo'',
      this_appPath = ''/work//com.example.foo/app'',
      this_logPath = ''/work//com.example.foo/log'',
      this_pkgPath = ''/work//com.example.foo/pkg'',
      this_prjPath = ''/work//com.example.foo/prj'',
      this_logfileOutput = LogfileOutput 2 ''/work/com.example.foo/log/common.log'',
      this_platformLogfileOutput = None,
      this_output =
        \<lparr>logfileOutput = LogfileOutput 2 ''/work/com.example.foo/log/common.log'',
         terminalOutput = TerminalOutput 0\<rparr>\<rparr>"

text \<open>The created project with its \<open>pkg\<close> directory removed.\<close>

definition demo_broken_world :: "posix_world" where
  "demo_broken_world =
     demo_created_world
       \<lparr>fs_dirs := removeAll ''/work/com.example.foo/pkg'' (fs_dirs demo_created_world)\<rparr>"

text \<open>A platform sink, and the project that a rejected identifier creates.\<close>

definition demo_platform_sink :: "LogfileOutput" where
  "demo_platform_sink = LogfileOutput 5 ''/work/com.example.foo/log/android.log''"



section \<open>Facts about the phases of the constructor\<close>

lemma Application_cwd_fail:
  "checkCwd env w cwd = Some e \<Longrightarrow> Application env w cwd pid = (w, Inl e)"
  by (simp add: Application_def)

lemma Application_Inr_D:
  assumes "Application env w cwd pid = (w', Inr app)"
  shows "\<exists>w1 this. checkCwd env w cwd = None \<and> branch env w cwd pid = (w1, Inr this) \<and>
           checkPaths env w1 (fivePaths this) = None \<and> setupLogging env w1 this = (w', Inr app)"
  using assms
  by (auto simp: Application_def split: option.splits sum.splits prod.splits)

lemma checkCwd_Some_InvalidPath:
  "checkCwd env w cwd = Some e \<Longrightarrow> \<exists>m. e = InvalidPathException m"
  by (auto simp: checkCwd_def split: if_splits)

lemma checkPaths_None_iff:
  "checkPaths env w ps = None \<longleftrightarrow> (\<forall>p\<in>set ps. shell_test_d env w p)"
  by (induction ps) auto

lemma checkPaths_Some_D:
  "checkPaths env w ps = Some e \<Longrightarrow>
     \<exists>q\<in>set ps. \<not> shell_test_d env w q \<and>
       e = InvalidPathException (''Failed to load, invalid path: '' @ q)"
  by (induction ps) (auto split: if_splits)

lemma setupLogging_Inr_D:
  assumes "setupLogging env w1 this = (w', Inr app)"
  shows "new_LogfileOutput env (path_join env (this_logPath this) ''common.log'')
           (shell_rm_f env (path_join env (this_logPath this) ''common.log'') w1)
         = (w', Inr (this_logfileOutput app))"
    and "membersOf app = this"
    and "this_platformLogfileOutput app = None"
    and "this_output app = new_OutputTee (this_logfileOutput app) (TerminalOutput_getInstance env)"
  using assms
  by (auto simp: setupLogging_def Let_def membersOf_def split: prod.splits sum.splits)

lemma fivePaths_membersOf: "fivePaths (membersOf app) = fivePaths app"
  by (simp add: fivePaths_def membersOf_def)

lemma setupLogging_dirs:
  assumes "dirs_persist env" "setupLogging env w1 this = (w', r)" "shell_test_d env w1 p"
  shows "shell_test_d env w' p"
proof -
  let ?lp = "path_join env (this_logPath this) ''common.log''"
  have "w' = fst (new_LogfileOutput env ?lp (shell_rm_f env ?lp w1))"
    using assms(2) by (auto simp: setupLogging_def Let_def split: prod.splits sum.splits)
  moreover have "shell_test_d env (shell_rm_f env ?lp w1) p"
    using assms(1,3) by (simp add: dirs_persist_def)
  ultimately show ?thesis using assms(1) by (simp add: dirs_persist_def)
qed

lemma mkdirSkeleton_dirs:
  assumes "dirs_persist env" "shell_test_d env w p"
  shows "shell_test_d env (mkdirSkeleton env this w) p"
  using assms by (simp add: dirs_persist_def mkdirSkeleton_def)

lemma branch_dirs:
  assumes "dirs_persist env" "branch env w cwd pid = (w1, r)" "shell_test_d env w p"
  shows "shell_test_d env w1 p"
  using assms
  by (auto simp: branch_def createBranch_def loadBranch_def Let_def mkdirSkeleton_dirs
      split: option.splits sum.splits if_splits)

lemma Application_dirs:
  assumes "dirs_persist env" "Application env w cwd pid = (w', r)" "shell_test_d env w p"
  shows "shell_test_d env w' p"
  using assms
  by (auto simp: Application_def split: option.splits sum.splits prod.splits
      dest: branch_dirs setupLogging_dirs)

lemma branch_Inr_D:
  assumes "branch env w cwd pid = (w1, Inr this)"
  shows "\<exists>base. this = initMembers env (this_packageId this) base \<and>
           (base = cwd \<or> base = path_dirname env cwd)"
  using assms
  by (auto simp: branch_def createBranch_def loadBranch_def Let_def initMembers_def
      split: option.splits sum.splits if_splits)

lemma Application_missing_path:
  assumes "checkCwd env w cwd = None" "branch env w cwd pid = (w1, Inr this)"
    and "\<exists>q\<in>set (fivePaths this). \<not> shell_test_d env w1 q"
  shows "\<exists>q\<in>set (fivePaths this). \<not> shell_test_d env w1 q \<and>
           Application env w cwd pid =
             (w1, Inl (InvalidPathException (''Failed to load, invalid path: '' @ q)))"
proof -
  from assms(3) have "checkPaths env w1 (fivePaths this) \<noteq> None"
    by (simp add: checkPaths_None_iff)
  then obtain e where e: "checkPaths env w1 (fivePaths this) = Some e" by blast
  from checkPaths_Some_D[OF e] obtain q where
    q: "q \<in> set (fivePaths this)" "\<not> shell_test_d env w1 q"
       "e = InvalidPathException (''Failed to load, invalid path: '' @ q)"
    by blast
  have "Application env w cwd pid = (w1, Inl e)"
    using assms(1,2) e by (simp add: Application_def)
  with q show ?thesis by blast
qed

lemma Application_routed:
  assumes "Application env w cwd pid = (w', Inr app)"
  shows "routed app" and "this_platformLogfileOutput app = None"
proof -
  from Application_Inr_D[OF assms] obtain w1 this where
    sl: "setupLogging env w1 this = (w', Inr app)"
    by blast
  show "this_platformLogfileOutput app = None"
    using sl by (rule setupLogging_Inr_D(3))
  then show "routed app"
    using setupLogging_Inr_D(4)[OF sl] by (simp add: routed_def new_OutputTee_def)
qed

subsection \<open>Assignments to \<open>platformLogfileOutput\<close>\<close>

lemma set_platformLogfileOutput_routed:
  "routed this \<Longrightarrow> routed (fst (set_platformLogfileOutput this v))"
  by (cases v) (simp_all add: routed_def get_output_def)

lemma set_platformLogfileOutput_common:
  "this_logfileOutput (fst (set_platformLogfileOutput this v)) = this_logfileOutput this"
  by (cases v) simp_all

lemma set_platformLogfileOutput_platform:
  "this_platformLogfileOutput (fst (set_platformLogfileOutput this v)) = Some s \<Longrightarrow>
     this_platformLogfileOutput this = Some s \<or> v = JLogfileOutput s"
  by (cases v) simp_all

lemma assignAll_routed: "routed this \<Longrightarrow> routed (assignAll this vs)"
  by (induction vs arbitrary: this) (simp_all add: set_platformLogfileOutput_routed)

lemma assignAll_common:
  "this_logfileOutput (assignAll this vs) = this_logfileOutput this"
  by (induction vs arbitrary: this) (simp_all add: set_platformLogfileOutput_common)

lemma assignAll_platform:
  "this_platformLogfileOutput (assignAll this vs) = Some s \<Longrightarrow>
     this_platformLogfileOutput this = Some s \<or> JLogfileOutput s \<in> set vs"
proof (induction vs arbitrary: this)
  case Nil
  then show ?case by simp
next
  case (Cons v vs)
  from Cons.IH[of "fst (set_platformLogfileOutput this v)"] Cons.prems
  have "this_platformLogfileOutput (fst (set_platformLogfileOutput this v)) = Some s \<or>
        JLogfileOutput s \<in> set vs"
    by simp
  then show ?case
    using set_platformLogfileOutput_platform[of this v s] by auto
qed

lemma assignAll_append: "assignAll this (vs @ ws) = assignAll (assignAll this vs) ws"
  by (induction vs arbitrary: this) simp_all

section \<open>Facts about the POSIX instance\<close>

lemma posix_dirs_persist: "dirs_persist (posix_env pcwd validate terminal)"
  by (simp add: dirs_persist_def posix_env_def posix_test_d_def posix_mkdir_def
      posix_rm_f_def posix_new_LogfileOutput_def Let_def)

lemma splitSlash_not_Nil: "splitSlash p \<noteq> []"
  by (induction p) (auto split: list.splits)

lemma splitSlash_no_slash: "s \<in> set (splitSlash p) \<Longrightarrow> CHR ''/'' \<notin> set s"
proof (induction p arbitrary: s)
  case Nil
  then show ?case by simp
next
  case (Cons c cs)
  show ?case
  proof (cases "c = CHR ''/''")
    case True
    with Cons show ?thesis by auto
  next
    case False
    obtain t ts where ts: "splitSlash cs = t # ts"
      using splitSlash_not_Nil[of cs] by (cases "splitSlash cs") auto
    with False Cons.prems have "s = c # t \<or> s \<in> set ts" by auto
    then show ?thesis
    proof
      assume "s = c # t"
      moreover have "CHR ''/'' \<notin> set t" using Cons.IH[of t] ts by simp
      ultimately show ?thesis using False by auto
    next
      assume "s \<in> set ts"
      then show ?thesis using Cons.IH[of s] ts by simp
    qed
  qed
qed

lemma splitSlash_append_slash: "splitSlash (p @ ''/'') = splitSlash p @ [[]]"
proof (induction p)
  case Nil
  show ?case by simp
next
  case (Cons c cs)
  obtain t ts where ts: "splitSlash cs = t # ts"
    using splitSlash_not_Nil[of cs] by (cases "splitSlash cs") auto
  with Cons show ?case by simp
qed

lemma normalizeArray_elems:
  "x \<in> set (normalizeArray a acc xs) \<Longrightarrow> x \<in> set acc \<or> x \<in> set xs \<or> x = ''..''"
  by (induction a acc xs rule: normalizeArray.induct)
     (auto split: if_splits list.splits)

lemma joinSlash_hd:
  assumes "xs \<noteq> []" and "\<forall>x\<in>set xs. x \<noteq> [] \<and> hd x \<noteq> CHR ''/''"
  shows "joinSlash xs \<noteq> [] \<and> hd (joinSlash xs) \<noteq> CHR ''/''"
  using assms by (induction xs rule: joinSlash.induct) auto

lemma normalizeSegments_hd:
  assumes "normalizeSegments a p \<noteq> []"
  shows "hd (normalizeSegments a p) \<noteq> CHR ''/''"
proof -
  let ?xs = "normalizeArray a [] (filter (\<lambda>s. s \<noteq> []) (splitSlash p))"
  have ne: "?xs \<noteq> []" using assms by (auto simp: normalizeSegments_def)
  have "\<forall>x\<in>set ?xs. x \<noteq> [] \<and> hd x \<noteq> CHR ''/''"
  proof
    fix x assume "x \<in> set ?xs"
    then have "x \<in> set (filter (\<lambda>s. s \<noteq> []) (splitSlash p)) \<or> x = ''..''"
      using normalizeArray_elems[of x a "[]" "filter (\<lambda>s. s \<noteq> []) (splitSlash p)"] by simp
    then show "x \<noteq> [] \<and> hd x \<noteq> CHR ''/''"
    proof
      assume "x \<in> set (filter (\<lambda>s. s \<noteq> []) (splitSlash p))"
      then have "x \<noteq> []" "CHR ''/'' \<notin> set x" using splitSlash_no_slash by auto
      then show ?thesis by (cases x) auto
    next
      assume "x = ''..''"
      then show ?thesis by simp
    qed
  qed
  with ne show ?thesis using joinSlash_hd unfolding normalizeSegments_def by blast
qed

lemma posix_normalize_relative:
  assumes "p \<noteq> []" "hd p \<noteq> CHR ''/''"
  shows "posix_normalize p \<noteq> [] \<and> hd (posix_normalize p) \<noteq> CHR ''/''"
  using assms normalizeSegments_hd[of True p]
  by (auto simp: posix_normalize_def Let_def)

lemma posix_resolve_absolute:
  assumes "pcwd \<noteq> []" "hd pcwd = CHR ''/''"
  shows "hd (posix_resolve pcwd p) = CHR ''/''"
  using assms by (simp add: posix_resolve_def Let_def)

text \<open>A relative path never passes the comparison of line 30.\<close>

lemma posix_relative_rejected:
  assumes "p \<noteq> []" "hd p \<noteq> CHR ''/''" "pcwd \<noteq> []" "hd pcwd = CHR ''/''"
  shows "posix_resolve pcwd p \<noteq> posix_normalize p"
  using posix_normalize_relative[OF assms(1,2)] posix_resolve_absolute[OF assms(3,4), of p]
  by metis

text \<open>
  For an identifier without a slash, \<open>basename\<close> and \<open>dirname\<close> take the concatenation
  of \<open>initMembers\<close> apart again, and the root of a project under an accepted \<open>cwd\<close> is
  itself accepted.
\<close>

lemma posix_basename_child:
  assumes "i \<noteq> []" "CHR ''/'' \<notin> set i"
  shows "posix_basename (b @ ''/'' @ i) = i"
proof -
  have "last i \<noteq> CHR ''/''" using assms by (metis last_in_set)
  then have hd: "hd (rev i) \<noteq> CHR ''/''" "rev i \<noteq> []"
    using assms by (simp_all add: hd_rev)
  then have "dropWhile (\<lambda>c. c = CHR ''/'') (rev i @ ''/'' @ rev b) = rev i @ ''/'' @ rev b"
    by (cases "rev i") auto
  moreover have "takeWhile (\<lambda>c. c \<noteq> CHR ''/'') (rev i @ ''/'' @ rev b) = rev i"
    using assms(2) by (auto simp: takeWhile_tail)
  ultimately show ?thesis by (simp add: posix_basename_def)
qed

lemma posix_dirname_child:
  assumes "b \<noteq> []" "i \<noteq> []" "CHR ''/'' \<notin> set i"
  shows "posix_dirname (b @ ''/'' @ i) = b"
proof -
  have "last i \<noteq> CHR ''/''" using assms by (metis last_in_set)
  then have hd: "hd (rev i) \<noteq> CHR ''/''" "rev i \<noteq> []"
    using assms by (simp_all add: hd_rev)
  then have "dropWhile (\<lambda>c. c = CHR ''/'') (rev i @ ''/'' @ rev b) = rev i @ ''/'' @ rev b"
    by (cases "rev i") auto
  moreover have "dropWhile (\<lambda>c. c \<noteq> CHR ''/'') (rev i @ ''/'' @ rev b) = ''/'' @ rev b"
  proof -
    have "\<And>x. x \<in> set (rev i) \<Longrightarrow> x \<noteq> CHR ''/''" using assms(3) by auto
    then have "dropWhile (\<lambda>c. c \<noteq> CHR ''/'') (rev i @ ''/'' @ rev b) =
               dropWhile (\<lambda>c. c \<noteq> CHR ''/'') (''/'' @ rev b)"
      by (rule dropWhile_append2)
    then show ?thesis by simp
  qed
  ultimately show ?thesis using assms(1) by (simp add: posix_dirname_def Let_def)
qed

text \<open>The four children of a root are its direct children.\<close>

lemma posix_children:
  fixes pcwd validate terminal packageId basePath
  defines "e \<equiv> posix_env pcwd validate terminal"
  defines "m \<equiv> initMembers e packageId basePath"
  shows "map (path_dirname e) [this_appPath m, this_logPath m, this_pkgPath m, this_prjPath m] =
           [this_rootPath m, this_rootPath m, this_rootPath m, this_rootPath m]"
    and "map (path_basename e) [this_appPath m, this_logPath m, this_pkgPath m, this_prjPath m] =
           [''app'', ''log'', ''pkg'', ''prj'']"
proof -
  let ?root = "basePath @ ''/'' @ js_to_string packageId"
  have ne: "?root \<noteq> []" by simp
  have d: "posix_dirname (?root @ ''/'' @ i) = ?root" if "i \<noteq> []" "CHR ''/'' \<notin> set i" for i
    using posix_dirname_child[OF ne that] .
  have b: "posix_basename (?root @ ''/'' @ i) = i" if "i \<noteq> []" "CHR ''/'' \<notin> set i" for i
    using posix_basename_child[OF that, of ?root] .
  have sel: "path_sep e = ''/''" "path_dirname e = posix_dirname" "path_basename e = posix_basename"
    by (simp_all add: e_def posix_env_def)
  have paths: "this_rootPath m = ?root" "this_appPath m = ?root @ ''/'' @ ''app''"
    "this_logPath m = ?root @ ''/'' @ ''log''" "this_pkgPath m = ?root @ ''/'' @ ''pkg''"
    "this_prjPath m = ?root @ ''/'' @ ''prj''"
    by (simp_all add: m_def initMembers_def Let_def sel)
  show "map (path_dirname e) [this_appPath m, this_logPath m, this_pkgPath m, this_prjPath m] =
           [this_rootPath m, this_rootPath m, this_rootPath m, this_rootPath m]"
    unfolding paths sel using d[of "''app''"] d[of "''log''"] d[of "''pkg''"] d[of "''prj''"]
    by simp
  show "map (path_basename e) [this_appPath m, this_logPath m, this_pkgPath m, this_prjPath m] =
           [''app'', ''log'', ''pkg'', ''prj'']"
    unfolding paths sel using b[of "''app''"] b[of "''log''"] b[of "''pkg''"] b[of "''prj''"]
    by simp
qed

lemma posix_resolve_eq_normalize:
  assumes "p \<noteq> []" "hd p = CHR ''/''" "last p \<noteq> CHR ''/''"
  shows "posix_resolve pcwd p = posix_normalize p"
proof -
  have "normalizeSegments False (p @ ''/'') = normalizeSegments False p"
    by (simp add: normalizeSegments_def splitSlash_append_slash)
  with assms show ?thesis
    by (simp add: posix_resolve_def posix_normalize_def Let_def)
qed

lemma posix_round_trip_paths:
  assumes "pcwd \<noteq> []" "hd pcwd = CHR ''/''"
    and "checkCwd (posix_env pcwd validate terminal) w base = None"
    and "ident \<noteq> []" "CHR ''/'' \<notin> set ident"
  shows "path_basename (posix_env pcwd validate terminal) (base @ ''/'' @ ident) = ident"
    and "path_dirname (posix_env pcwd validate terminal) (base @ ''/'' @ ident) = base"
    and "path_resolve (posix_env pcwd validate terminal) (base @ ''/'' @ ident) =
         path_normalize (posix_env pcwd validate terminal) (base @ ''/'' @ ident)"
proof -
  from assms(3) have b: "base \<noteq> []" "posix_resolve pcwd base = posix_normalize base"
    by (auto simp: checkCwd_def posix_env_def split: if_splits)
  then have habs: "hd base = CHR ''/''"
    using posix_relative_rejected[OF _ _ assms(1,2), of base] by blast
  show "path_basename (posix_env pcwd validate terminal) (base @ ''/'' @ ident) = ident"
    using posix_basename_child[OF assms(4,5), of base] by (simp add: posix_env_def)
  show "path_dirname (posix_env pcwd validate terminal) (base @ ''/'' @ ident) = base"
    using posix_dirname_child[OF b(1) assms(4,5)] by (simp add: posix_env_def)
  have "last ident \<noteq> CHR ''/''" using assms(4,5) by (metis last_in_set)
  then have "last (base @ ''/'' @ ident) \<noteq> CHR ''/''" using assms(4) by simp
  moreover have "hd (base @ ''/'' @ ident) = CHR ''/''" using b(1) habs by simp
  ultimately show "path_resolve (posix_env pcwd validate terminal) (base @ ''/'' @ ident) =
         path_normalize (posix_env pcwd validate terminal) (base @ ''/'' @ ident)"
    using posix_resolve_eq_normalize[of "base @ ''/'' @ ident" pcwd]
    by (simp add: posix_env_def)
qed

lemma posix_rm_f_removes:
  "p \<noteq> [] \<Longrightarrow> posix_resolve pcwd p \<notin> set (fs_files (posix_rm_f pcwd p w))"
  by (simp add: posix_rm_f_def)

lemma posix_new_LogfileOutput_bound:
  "posix_new_LogfileOutput pcwd p w = (w', Inr sink) \<Longrightarrow> sink_path sink = p"
  by (auto simp: posix_new_LogfileOutput_def Let_def)

subsection \<open>Two runs of the constructor\<close>

lemma demo_create:
  "Application demo_env demo_world ''/work'' (Some ''com.example.foo'') =
     (demo_created_world, Inr demo_app)"
  by code_simp

lemma demo_load:
  "Application demo_env demo_created_world ''/work/com.example.foo'' None =
     (demo_loaded_world, Inr demo_loaded_app)"
  by code_simp

section \<open>The claims\<close>

text \<open>
  C1. In create mode, when the computed root path is already a directory, the
  constructor throws before any directory is created: the world is returned unchanged
  and the exception is the \<open>InvalidPathException\<close> with the message "Failed to create
  project, path already exists", which is how the code realises the spec's abstract
  kind \<open>PathConflict\<close>. Consequently, after a successful create a second create with the
  same \<open>cwd\<close> and \<open>packageId\<close> throws that exception and leaves the world, with the five
  directories of the first call, as it was.
\<close>

theorem create_existing_root_conflict:
  assumes "checkCwd env w cwd = None" and "p \<noteq> []" and "validatePackageId env p = Inr v"
  shows "(shell_test_d env w (cwd @ path_sep env @ js_to_string v) \<longrightarrow>
            Application env w cwd (Some p) =
              (w, Inl (InvalidPathException
                 (''Failed to create project, path already exists: '' @
                  cwd @ path_sep env @ js_to_string v)))) \<and>
         (dirs_persist env \<longrightarrow>
            (\<forall>w1 app. Application env w cwd (Some p) = (w1, Inr app) \<longrightarrow>
               this_rootPath app = cwd @ path_sep env @ js_to_string v \<and>
               (\<forall>q\<in>set (fivePaths app). shell_test_d env w1 q) \<and>
               Application env w1 cwd (Some p) =
                 (w1, Inl (InvalidPathException
                    (''Failed to create project, path already exists: '' @
                     this_rootPath app)))))"
proof (intro conjI impI allI)
  assume "shell_test_d env w (cwd @ path_sep env @ js_to_string v)"
  with assms show "Application env w cwd (Some p) =
      (w, Inl (InvalidPathException (''Failed to create project, path already exists: '' @
                  cwd @ path_sep env @ js_to_string v)))"
    by (simp add: Application_def branch_def createBranch_def initMembers_def Let_def)
next
  fix w1 app
  assume persist: "dirs_persist env" and ok: "Application env w cwd (Some p) = (w1, Inr app)"
  from Application_Inr_D[OF ok] obtain w0 this where
    br: "branch env w cwd (Some p) = (w0, Inr this)" and
    cp: "checkPaths env w0 (fivePaths this) = None" and
    sl: "setupLogging env w0 this = (w1, Inr app)"
    by blast
  from br assms have this_eq: "this = initMembers env v cwd"
    by (auto simp: branch_def createBranch_def Let_def split: if_splits)
  have mem: "membersOf app = this" using sl by (rule setupLogging_Inr_D(2))
  then have "this_rootPath app = this_rootPath this"
    by (auto simp: membersOf_def)
  with this_eq show root: "this_rootPath app = cwd @ path_sep env @ js_to_string v"
    by (simp add: initMembers_def Let_def)
  have "fivePaths app = fivePaths this" using mem fivePaths_membersOf by metis
  with cp have "\<forall>q\<in>set (fivePaths app). shell_test_d env w0 q"
    by (simp add: checkPaths_None_iff)
  then show five: "\<forall>q\<in>set (fivePaths app). shell_test_d env w1 q"
    using setupLogging_dirs[OF persist sl] by blast
  then have r1: "shell_test_d env w1 (this_rootPath app)"
    by (simp add: fivePaths_def)
  from assms(1) have "shell_test_d env w cwd"
    by (auto simp: checkCwd_def split: if_splits)
  then have "shell_test_d env w1 cwd"
    using Application_dirs[OF persist ok] by blast
  with assms(1) have "checkCwd env w1 cwd = None"
    by (auto simp: checkCwd_def split: if_splits)
  with r1 root assms(2,3) show "Application env w1 cwd (Some p) =
      (w1, Inl (InvalidPathException (''Failed to create project, path already exists: '' @
                     this_rootPath app)))"
    by (simp add: Application_def branch_def createBranch_def initMembers_def Let_def)
qed

text \<open>A run: the second create of the same project.\<close>

theorem create_existing_root_conflict_witness:
  "Application demo_env demo_world ''/work'' (Some ''com.example.foo'') =
     (demo_created_world, Inr demo_app) \<and>
   list_all (shell_test_d demo_env demo_created_world) (fivePaths demo_app) \<and>
   Application demo_env demo_created_world ''/work'' (Some ''com.example.foo'') =
     (demo_created_world,
      Inl (InvalidPathException
             ''Failed to create project, path already exists: /work/com.example.foo''))"
proof -
  have cwd: "checkCwd demo_env demo_world ''/work'' = None"
    by code_simp
  have val: "validatePackageId demo_env ''com.example.foo'' = Inr (JStr ''com.example.foo'')"
    by code_simp
  have persist: "dirs_persist demo_env"
    by (simp add: demo_env_def posix_dirs_persist)
  have root: "this_rootPath demo_app = ''/work/com.example.foo''"
    by (simp add: demo_app_def)
  from create_existing_root_conflict[OF cwd _ val] persist demo_create
  have "(\<forall>q\<in>set (fivePaths demo_app). shell_test_d demo_env demo_created_world q) \<and>
        Application demo_env demo_created_world ''/work'' (Some ''com.example.foo'') =
          (demo_created_world,
           Inl (InvalidPathException
                  (''Failed to create project, path already exists: '' @
                   this_rootPath demo_app)))"
    by blast
  then show ?thesis
    using demo_create root by (simp add: list_all_iff)
qed

text \<open>
  C2. \<open>initMembers\<close> computes the root path as the base path, the separator and the
  package id, and each of the four other paths as the root path, the separator and
  \<open>app\<close>, \<open>log\<close>, \<open>pkg\<close>, \<open>prj\<close>. It is a function of its arguments alone: it takes no
  world and returns none. Every constructed object carries exactly this layout, over
  \<open>cwd\<close> in create mode and over the parent of \<open>cwd\<close> in load mode. With POSIX paths
  each of the four is a direct child of the root: its \<open>dirname\<close> is the root path and
  its \<open>basename\<close> the child's name.
\<close>

theorem initMembers_layout:
  fixes env :: "'w env" and packageId basePath pcwd validate terminal
  defines "m \<equiv> initMembers env packageId basePath"
  defines "posix \<equiv> posix_env pcwd validate terminal"
  defines "pm \<equiv> initMembers posix packageId basePath"
  shows "this_packageId m = packageId \<and>
         this_rootPath m = basePath @ path_sep env @ js_to_string packageId \<and>
         this_appPath m = this_rootPath m @ path_sep env @ ''app'' \<and>
         this_logPath m = this_rootPath m @ path_sep env @ ''log'' \<and>
         this_pkgPath m = this_rootPath m @ path_sep env @ ''pkg'' \<and>
         this_prjPath m = this_rootPath m @ path_sep env @ ''prj'' \<and>
         (\<forall>w cwd pid w' app. Application env w cwd pid = (w', Inr app) \<longrightarrow>
            (\<exists>base. membersOf app = initMembers env (this_packageId app) base \<and>
               (base = cwd \<or> base = path_dirname env cwd))) \<and>
         map (path_dirname posix)
           [this_appPath pm, this_logPath pm, this_pkgPath pm, this_prjPath pm] =
           [this_rootPath pm, this_rootPath pm, this_rootPath pm, this_rootPath pm] \<and>
         map (path_basename posix)
           [this_appPath pm, this_logPath pm, this_pkgPath pm, this_prjPath pm] =
           [''app'', ''log'', ''pkg'', ''prj'']"
proof -
  have "\<exists>base. membersOf app = initMembers env (this_packageId app) base \<and>
         (base = cwd \<or> base = path_dirname env cwd)"
    if ok: "Application env w cwd pid = (w', Inr app)" for w cwd pid w' app
  proof -
    from Application_Inr_D[OF ok] obtain w1 this where
      br: "branch env w cwd pid = (w1, Inr this)" and
      sl: "setupLogging env w1 this = (w', Inr app)"
      by blast
    have mem: "membersOf app = this" using sl by (rule setupLogging_Inr_D(2))
    then have "this_packageId app = this_packageId this"
      by (auto simp: membersOf_def)
    with branch_Inr_D[OF br] mem show ?thesis by simp
  qed
  then show ?thesis
    unfolding m_def pm_def posix_def
    using posix_children[of pcwd validate terminal packageId basePath]
    by (simp add: initMembers_def Let_def)
qed

text \<open>A run: the layout of \<open>com.example.foo\<close> under \<open>/work\<close>.\<close>

theorem initMembers_layout_witness:
  "initMembers demo_env (JStr ''com.example.foo'') ''/work'' = demo_members \<and>
   membersOf demo_app = initMembers demo_env (this_packageId demo_app) ''/work''"
proof -
  have "membersOf demo_app = demo_members"
    by (simp add: membersOf_def demo_app_def demo_members_def)
  moreover have "this_packageId demo_app = JStr ''com.example.foo''"
    by (simp add: demo_app_def)
  moreover have "path_sep demo_env = ''/''"
    by (simp add: demo_env_def posix_env_def)
  ultimately show ?thesis
    using initMembers_layout[where env = demo_env and packageId = "JStr ''com.example.foo''"
        and basePath = "''/work''"]
    by (cases "initMembers demo_env (JStr ''com.example.foo'') ''/work''")
       (simp add: demo_members_def)
qed

text \<open>
  C3. Round trip. Let a project be created under \<open>base\<close> with the validated identifier
  \<open>ident\<close>, so that its root is \<open>base\<close>, the separator and \<open>ident\<close>. If the path
  functions take that root apart again (\<open>basename\<close> gives \<open>ident\<close>, \<open>dirname\<close> gives
  \<open>base\<close>, and the root passes the absoluteness comparison) and the validator returns
  \<open>ident\<close> for \<open>ident\<close>, then constructing with \<open>cwd\<close> the root and no package id derives
  the same package id and the same five paths, passes the five directory checks, and
  goes on to the logging set-up with them.
\<close>

theorem load_round_trip:
  assumes persist: "dirs_persist env"
    and created: "Application env w base (Some p) = (w1, Inr app)"
    and p: "p \<noteq> []"
    and ident: "this_packageId app = JStr ident" "ident \<noteq> []"
    and valid: "validatePackageId env ident = Inr (JStr ident)"
    and bn: "path_basename env (this_rootPath app) = ident"
    and dn: "path_dirname env (this_rootPath app) = base"
    and rn: "path_resolve env (this_rootPath app) = path_normalize env (this_rootPath app)"
  shows "this_rootPath app = base @ path_sep env @ ident \<and>
         branch env w1 (this_rootPath app) None = (w1, Inr (membersOf app)) \<and>
         Application env w1 (this_rootPath app) None = setupLogging env w1 (membersOf app) \<and>
         (\<forall>w2 app2. Application env w1 (this_rootPath app) None = (w2, Inr app2) \<longrightarrow>
            this_packageId app2 = this_packageId app \<and> fivePaths app2 = fivePaths app)"
proof -
  from Application_Inr_D[OF created] obtain w0 this where
    cw: "checkCwd env w base = None" and
    br: "branch env w base (Some p) = (w0, Inr this)" and
    cp: "checkPaths env w0 (fivePaths this) = None" and
    sl: "setupLogging env w0 this = (w1, Inr app)"
    by blast
  have mem: "membersOf app = this" using sl by (rule setupLogging_Inr_D(2))
  from br p obtain v where this_eq: "this = initMembers env v base"
    by (auto simp: branch_def createBranch_def Let_def split: sum.splits if_splits)
  have "this_packageId app = this_packageId this" using mem by (auto simp: membersOf_def)
  with this_eq ident(1) have v: "v = JStr ident" by (simp add: initMembers_def Let_def)
  with this_eq mem have mem_eq: "membersOf app = initMembers env (JStr ident) base" by simp
  then have root: "this_rootPath app = base @ path_sep env @ ident"
    by (auto simp: membersOf_def initMembers_def Let_def dest: arg_cong[where f = this_rootPath])
  have five: "fivePaths app = fivePaths this" using mem fivePaths_membersOf by metis
  with cp have "\<forall>q\<in>set (fivePaths app). shell_test_d env w0 q"
    by (simp add: checkPaths_None_iff)
  then have five1: "\<forall>q\<in>set (fivePaths app). shell_test_d env w1 q"
    using setupLogging_dirs[OF persist sl] by blast
  then have "shell_test_d env w1 (this_rootPath app)" by (simp add: fivePaths_def)
  moreover have "this_rootPath app \<noteq> []" using root ident(2) by simp
  ultimately have cw1: "checkCwd env w1 (this_rootPath app) = None"
    using rn by (simp add: checkCwd_def)
  have br1: "branch env w1 (this_rootPath app) None = (w1, Inr (membersOf app))"
    using bn dn valid ident(2) mem_eq by (simp add: branch_def loadBranch_def)
  have cp1: "checkPaths env w1 (fivePaths (membersOf app)) = None"
    using five1 by (simp add: checkPaths_None_iff fivePaths_membersOf)
  have app1: "Application env w1 (this_rootPath app) None = setupLogging env w1 (membersOf app)"
    using cw1 br1 cp1 by (simp add: Application_def)
  have "this_packageId app2 = this_packageId app \<and> fivePaths app2 = fivePaths app"
    if "Application env w1 (this_rootPath app) None = (w2, Inr app2)" for w2 app2
  proof -
    from that app1 have "setupLogging env w1 (membersOf app) = (w2, Inr app2)" by simp
    then have "membersOf app2 = membersOf app" by (rule setupLogging_Inr_D(2))
    then show ?thesis
      by (metis fivePaths_membersOf members.select_convs(1) membersOf_def)
  qed
  with root br1 app1 show ?thesis by blast
qed

text \<open>A run: create under \<open>/work\<close>, then load from the root.\<close>

theorem load_round_trip_witness:
  "Application demo_env demo_world ''/work'' (Some ''com.example.foo'') =
     (demo_created_world, Inr demo_app) \<and>
   Application demo_env demo_created_world ''/work/com.example.foo'' None =
     (demo_loaded_world, Inr demo_loaded_app) \<and>
   this_packageId demo_loaded_app = this_packageId demo_app \<and>
   fivePaths demo_loaded_app = fivePaths demo_app"
proof -
  let ?env = "posix_env ''/home/user'' demo_validate (TerminalOutput 0)"
  have persist: "dirs_persist demo_env"
    by (simp add: demo_env_def posix_dirs_persist)
  have ident: "this_packageId demo_app = JStr ''com.example.foo''"
    by (simp add: demo_app_def)
  have valid: "validatePackageId demo_env ''com.example.foo'' = Inr (JStr ''com.example.foo'')"
    by code_simp
  have "checkCwd demo_env demo_world ''/work'' = None"
    by code_simp
  then have cwd: "checkCwd ?env demo_world ''/work'' = None"
    by (simp add: demo_env_def)
  have root: "this_rootPath demo_app = ''/work'' @ ''/'' @ ''com.example.foo''"
    by (simp add: demo_app_def)
  have slash: "CHR ''/'' \<notin> set ''com.example.foo''"
    by simp
  note paths = posix_round_trip_paths[OF _ _ cwd _ slash, folded demo_env_def root]
  have bn: "path_basename demo_env (this_rootPath demo_app) = ''com.example.foo''"
    by (rule paths) simp_all
  have dn: "path_dirname demo_env (this_rootPath demo_app) = ''/work''"
    by (rule paths) simp_all
  have rn: "path_resolve demo_env (this_rootPath demo_app) =
            path_normalize demo_env (this_rootPath demo_app)"
    by (rule paths) simp_all
  have ne: "''com.example.foo'' \<noteq> []"
    by simp
  have load: "Application demo_env demo_created_world (this_rootPath demo_app) None =
                (demo_loaded_world, Inr demo_loaded_app)"
    using demo_load by (simp add: demo_app_def)
  from load_round_trip[OF persist demo_create ne ident ne valid bn dn rn] load
  have "this_packageId demo_loaded_app = this_packageId demo_app \<and>
        fivePaths demo_loaded_app = fivePaths demo_app"
    by blast
  with demo_create demo_load show ?thesis
    by blast
qed

text \<open>
  C4, as the code has it. The constructor throws \<open>InvalidPathException\<close> and leaves the
  world untouched, whatever the package id argument and the validator, when \<open>cwd\<close> is
  empty or \<open>Path.resolve(cwd)\<close> differs from \<open>Path.normalize(cwd)\<close>, and when \<open>cwd\<close>
  passes that comparison but is not a directory. With POSIX paths the comparison
  rejects every relative path. It does not compare \<open>cwd\<close> with its normalised form.
\<close>

theorem cwd_validation:
  "(cwd = [] \<or> path_resolve env cwd \<noteq> path_normalize env cwd \<longrightarrow>
      Application env w cwd pid =
        (w, Inl (InvalidPathException (''Path not absolute: '' @ cwd)))) \<and>
   (cwd \<noteq> [] \<and> path_resolve env cwd = path_normalize env cwd \<and> \<not> shell_test_d env w cwd \<longrightarrow>
      Application env w cwd pid =
        (w, Inl (InvalidPathException (''Path does not exist: '' @ cwd)))) \<and>
   (rel \<noteq> [] \<and> hd rel \<noteq> CHR ''/'' \<and> pcwd \<noteq> [] \<and> hd pcwd = CHR ''/'' \<longrightarrow>
      Application (posix_env pcwd validate terminal) pw rel pid =
        (pw, Inl (InvalidPathException (''Path not absolute: '' @ rel))))"
proof (intro conjI impI)
  assume "cwd = [] \<or> path_resolve env cwd \<noteq> path_normalize env cwd"
  then have "checkCwd env w cwd = Some (InvalidPathException (''Path not absolute: '' @ cwd))"
    by (auto simp: checkCwd_def)
  then show "Application env w cwd pid =
        (w, Inl (InvalidPathException (''Path not absolute: '' @ cwd)))"
    by (rule Application_cwd_fail)
next
  assume "cwd \<noteq> [] \<and> path_resolve env cwd = path_normalize env cwd \<and> \<not> shell_test_d env w cwd"
  then have "checkCwd env w cwd = Some (InvalidPathException (''Path does not exist: '' @ cwd))"
    by (auto simp: checkCwd_def)
  then show "Application env w cwd pid =
        (w, Inl (InvalidPathException (''Path does not exist: '' @ cwd)))"
    by (rule Application_cwd_fail)
next
  assume a: "rel \<noteq> [] \<and> hd rel \<noteq> CHR ''/'' \<and> pcwd \<noteq> [] \<and> hd pcwd = CHR ''/''"
  then have "posix_resolve pcwd rel \<noteq> posix_normalize rel"
    using posix_relative_rejected by blast
  then have "checkCwd (posix_env pcwd validate terminal) pw rel =
               Some (InvalidPathException (''Path not absolute: '' @ rel))"
    by (simp add: checkCwd_def posix_env_def)
  then show "Application (posix_env pcwd validate terminal) pw rel pid =
        (pw, Inl (InvalidPathException (''Path not absolute: '' @ rel)))"
    by (rule Application_cwd_fail)
qed

text \<open>Runs: an empty path, a trailing slash, a missing directory, a relative path.\<close>

theorem cwd_validation_witness:
  "Application demo_env demo_world [] None =
     (demo_world, Inl (InvalidPathException ''Path not absolute: '')) \<and>
   Application demo_env demo_world ''/work/'' None =
     (demo_world, Inl (InvalidPathException ''Path not absolute: /work/'')) \<and>
   Application demo_env demo_world ''/nowhere'' (Some ''com.example.foo'') =
     (demo_world, Inl (InvalidPathException ''Path does not exist: /nowhere'')) \<and>
   Application demo_env demo_world ''work'' (Some ''com.example.foo'') =
     (demo_world, Inl (InvalidPathException ''Path not absolute: work''))"
proof -
  have a: "path_resolve demo_env ''/work/'' \<noteq> path_normalize demo_env ''/work/''"
    by code_simp
  have b: "''/nowhere'' \<noteq> [] \<and>
           path_resolve demo_env ''/nowhere'' = path_normalize demo_env ''/nowhere'' \<and>
           \<not> shell_test_d demo_env demo_world ''/nowhere''"
    by code_simp
  have c: "''work'' \<noteq> [] \<and> hd ''work'' \<noteq> CHR ''/'' \<and>
           ''/home/user'' \<noteq> [] \<and> hd ''/home/user'' = CHR ''/''"
    by simp
  have r1: "Application demo_env demo_world [] None =
              (demo_world, Inl (InvalidPathException (''Path not absolute: '' @ [])))"
    by (rule cwd_validation[where cwd = "[]" and env = demo_env and w = demo_world
          and pid = None, THEN conjunct1, THEN mp, OF disjI1[OF refl]])
  have r2: "Application demo_env demo_world ''/work/'' None =
              (demo_world, Inl (InvalidPathException (''Path not absolute: '' @ ''/work/'')))"
    by (rule cwd_validation[where cwd = "''/work/''" and env = demo_env and w = demo_world
          and pid = None, THEN conjunct1, THEN mp, OF disjI2[OF a]])
  have r3: "Application demo_env demo_world ''/nowhere'' (Some ''com.example.foo'') =
              (demo_world, Inl (InvalidPathException (''Path does not exist: '' @ ''/nowhere'')))"
    by (rule cwd_validation[where cwd = "''/nowhere''" and env = demo_env and w = demo_world
          and pid = "Some ''com.example.foo''", THEN conjunct2, THEN conjunct1, THEN mp, OF b])
  have r4: "Application demo_env demo_world ''work'' (Some ''com.example.foo'') =
              (demo_world, Inl (InvalidPathException (''Path not absolute: '' @ ''work'')))"
    unfolding demo_env_def
    by (rule cwd_validation[where rel = "''work''" and pcwd = "''/home/user''"
          and pid = "Some ''com.example.foo''",
          THEN conjunct2, THEN conjunct2, THEN mp, OF c])
  show ?thesis
    using r1 r2 r3 r4 by simp
qed

text \<open>
  The claim as stated, that every non-canonical path is rejected, fails: the absolute
  path \<open>/work//com.example.foo\<close> differs from its normalised form, yet \<open>resolve\<close> and
  \<open>normalize\<close> agree on it and the project is loaded through it.
\<close>

theorem noncanonical_cwd_accepted:
  "posix_normalize ''/work//com.example.foo'' = ''/work/com.example.foo'' \<and>
   Application demo_env demo_created_world ''/work//com.example.foo'' None =
     (demo_loaded_world, Inr demo_noncanonical_app)"
  by code_simp

text \<open>
  C5. After either branch the five paths are tested in the world the branch left
  behind, and the first one that is not a directory makes the constructor throw
  \<open>InvalidPathException\<close> ("Failed to load, invalid path"). Hence a constructed object
  has its five directories (they persist through the logging set-up), and in load mode
  a project with any of the five directories missing is refused with an
  \<open>InvalidPathException\<close>, the world untouched, provided the validator returns.
\<close>

theorem five_paths_checked:
  "(dirs_persist env \<longrightarrow>
      (\<forall>w' app. Application env w cwd pid = (w', Inr app) \<longrightarrow>
         (\<forall>q\<in>set (fivePaths app). shell_test_d env w' q))) \<and>
   (\<forall>w1 this. checkCwd env w cwd = None \<and> branch env w cwd pid = (w1, Inr this) \<and>
        (\<exists>q\<in>set (fivePaths this). \<not> shell_test_d env w1 q) \<longrightarrow>
      (\<exists>q\<in>set (fivePaths this). \<not> shell_test_d env w1 q \<and>
         Application env w cwd pid =
           (w1, Inl (InvalidPathException (''Failed to load, invalid path: '' @ q))))) \<and>
   ((pid = None \<or> pid = Some []) \<and>
    validatePackageId env (path_basename env cwd) = Inr v \<and>
    (\<exists>q\<in>set (fivePaths (initMembers env v (path_dirname env cwd))). \<not> shell_test_d env w q) \<longrightarrow>
      (\<exists>m. Application env w cwd pid = (w, Inl (InvalidPathException m))))"
proof (intro conjI impI allI)
  fix w' app
  assume persist: "dirs_persist env" and ok: "Application env w cwd pid = (w', Inr app)"
  from Application_Inr_D[OF ok] obtain w1 this where
    cp: "checkPaths env w1 (fivePaths this) = None" and
    sl: "setupLogging env w1 this = (w', Inr app)"
    by blast
  have "membersOf app = this" using sl by (rule setupLogging_Inr_D(2))
  then have "fivePaths app = fivePaths this" using fivePaths_membersOf by metis
  with cp have "\<forall>q\<in>set (fivePaths app). shell_test_d env w1 q"
    by (simp add: checkPaths_None_iff)
  then show "\<forall>q\<in>set (fivePaths app). shell_test_d env w' q"
    using setupLogging_dirs[OF persist sl] by blast
next
  fix w1 this
  assume a: "checkCwd env w cwd = None \<and> branch env w cwd pid = (w1, Inr this) \<and>
        (\<exists>q\<in>set (fivePaths this). \<not> shell_test_d env w1 q)"
  show "\<exists>q\<in>set (fivePaths this). \<not> shell_test_d env w1 q \<and>
         Application env w cwd pid =
           (w1, Inl (InvalidPathException (''Failed to load, invalid path: '' @ q)))"
    by (rule Application_missing_path[OF a[THEN conjunct1] a[THEN conjunct2, THEN conjunct1]
          a[THEN conjunct2, THEN conjunct2]])
next
  assume a: "(pid = None \<or> pid = Some []) \<and>
    validatePackageId env (path_basename env cwd) = Inr v \<and>
    (\<exists>q\<in>set (fivePaths (initMembers env v (path_dirname env cwd))). \<not> shell_test_d env w q)"
  then have br: "branch env w cwd pid = loadBranch env w cwd"
    by (auto simp: branch_def)
  show "\<exists>m. Application env w cwd pid = (w, Inl (InvalidPathException m))"
  proof (cases "checkCwd env w cwd")
    case (Some e)
    from checkCwd_Some_InvalidPath[OF Some] obtain m where "e = InvalidPathException m" ..
    with Application_cwd_fail[OF Some, of pid]
    have "Application env w cwd pid = (w, Inl (InvalidPathException m))" by simp
    then show ?thesis ..
  next
    case None
    show ?thesis
    proof (cases "truthy v")
      case False
      with a br None show ?thesis
        by (simp add: Application_def loadBranch_def)
    next
      case True
      with a br have "branch env w cwd pid = (w, Inr (initMembers env v (path_dirname env cwd)))"
        by (simp add: loadBranch_def)
      from Application_missing_path[OF None this] a obtain q where
        "Application env w cwd pid =
           (w, Inl (InvalidPathException (''Failed to load, invalid path: '' @ q)))"
        by auto
      then show ?thesis ..
    qed
  qed
qed

text \<open>A run: loading the project after its \<open>pkg\<close> directory was removed.\<close>

theorem five_paths_checked_witness:
  "list_all (shell_test_d demo_env demo_created_world) (fivePaths demo_app) \<and>
   \<not> shell_test_d demo_env demo_broken_world ''/work/com.example.foo/pkg'' \<and>
   (\<exists>m. Application demo_env demo_broken_world ''/work/com.example.foo'' None =
          (demo_broken_world, Inl (InvalidPathException m))) \<and>
   Application demo_env demo_broken_world ''/work/com.example.foo'' None =
     (demo_broken_world,
      Inl (InvalidPathException ''Failed to load, invalid path: /work/com.example.foo/pkg''))"
proof -
  have persist: "dirs_persist demo_env"
    by (simp add: demo_env_def posix_dirs_persist)
  have five: "\<forall>q\<in>set (fivePaths demo_app). shell_test_d demo_env demo_created_world q"
    by (rule five_paths_checked[where env = demo_env and w = demo_world and cwd = "''/work''"
          and pid = "Some ''com.example.foo''",
          THEN conjunct1, THEN mp, OF persist, THEN spec, THEN spec, THEN mp, OF demo_create])
  have hyp: "(None = None \<or> None = Some []) \<and>
    validatePackageId demo_env (path_basename demo_env ''/work/com.example.foo'') =
      Inr (JStr ''com.example.foo'') \<and>
    (\<exists>q\<in>set (fivePaths (initMembers demo_env (JStr ''com.example.foo'')
                 (path_dirname demo_env ''/work/com.example.foo''))).
        \<not> shell_test_d demo_env demo_broken_world q)"
    by code_simp
  have ex: "\<exists>m. Application demo_env demo_broken_world ''/work/com.example.foo'' None =
          (demo_broken_world, Inl (InvalidPathException m))"
    by (rule five_paths_checked[where env = demo_env and w = demo_broken_world
          and cwd = "''/work/com.example.foo''" and pid = None,
          THEN conjunct2, THEN conjunct2, THEN mp, OF hyp])
  have missing: "\<not> shell_test_d demo_env demo_broken_world ''/work/com.example.foo/pkg''"
    by code_simp
  have run: "Application demo_env demo_broken_world ''/work/com.example.foo'' None =
     (demo_broken_world,
      Inl (InvalidPathException ''Failed to load, invalid path: /work/com.example.foo/pkg''))"
    by code_simp
  from five have "list_all (shell_test_d demo_env demo_created_world) (fivePaths demo_app)"
    by (simp add: list_all_iff)
  with missing ex run show ?thesis by (intro conjI)
qed

text \<open>
  C6, as the code has it. After construction and after any sequence of assignments to
  \<open>platformLogfileOutput\<close> (accepted or rejected), the tee's logfile sink is the platform
  sink when \<open>platformLogfileOutput\<close> is set and the common sink created at construction
  when it is \<open>null\<close>. The tee's sink is the common sink exactly when
  \<open>platformLogfileOutput\<close> is \<open>null\<close> provided no assigned sink is the common sink object
  itself. Assigning \<open>null\<close> next is accepted and makes the tee's logfile sink the very
  sink created at construction.
\<close>

theorem router_exclusive:
  assumes "Application env w cwd pid = (w', Inr app)"
  shows "this_logfileOutput (assignAll app vs) = this_logfileOutput app \<and>
         logfileOutput (get_output (assignAll app vs)) =
           (case this_platformLogfileOutput (assignAll app vs) of
              None \<Rightarrow> this_logfileOutput app
            | Some s \<Rightarrow> s) \<and>
         (JLogfileOutput (this_logfileOutput app) \<notin> set vs \<longrightarrow>
            (logfileOutput (get_output (assignAll app vs)) = this_logfileOutput app
               \<longleftrightarrow> this_platformLogfileOutput (assignAll app vs) = None)) \<and>
         snd (set_platformLogfileOutput (assignAll app vs) JNull) = Inr () \<and>
         fst (set_platformLogfileOutput (assignAll app vs) JNull) = assignAll app (vs @ [JNull]) \<and>
         this_platformLogfileOutput (assignAll app (vs @ [JNull])) = None \<and>
         logfileOutput (get_output (assignAll app (vs @ [JNull]))) = this_logfileOutput app"
proof -
  let ?a = "assignAll app vs"
  have common: "this_logfileOutput ?a = this_logfileOutput app"
    by (rule assignAll_common)
  have "routed ?a"
    using Application_routed(1)[OF assms] by (rule assignAll_routed)
  then have sel: "logfileOutput (get_output ?a) =
           (case this_platformLogfileOutput ?a of
              None \<Rightarrow> this_logfileOutput app
            | Some s \<Rightarrow> s)"
    using common by (simp add: routed_def get_output_def split: option.splits)
  have iff: "logfileOutput (get_output ?a) = this_logfileOutput app
               \<longleftrightarrow> this_platformLogfileOutput ?a = None"
    if fresh: "JLogfileOutput (this_logfileOutput app) \<notin> set vs"
  proof (cases "this_platformLogfileOutput ?a")
    case None
    with sel show ?thesis by simp
  next
    case (Some s)
    with assignAll_platform[of app vs s] Application_routed(2)[OF assms]
    have "JLogfileOutput s \<in> set vs" by simp
    with fresh have "s \<noteq> this_logfileOutput app" by auto
    with Some sel show ?thesis by simp
  qed
  have app_null: "assignAll app (vs @ [JNull]) = fst (set_platformLogfileOutput ?a JNull)"
    by (simp add: assignAll_append)
  show ?thesis
    using common sel iff app_null by (simp add: get_output_def)
qed

text \<open>A run: set a platform sink, attempt an invalid write, reset to \<open>null\<close>.\<close>

theorem router_exclusive_witness:
  "logfileOutput (get_output (assignAll demo_app [JLogfileOutput demo_platform_sink])) =
     demo_platform_sink \<and>
   get_platformLogfileOutput (assignAll demo_app [JLogfileOutput demo_platform_sink]) =
     JLogfileOutput demo_platform_sink \<and>
   logfileOutput (get_output
      (assignAll demo_app ([JLogfileOutput demo_platform_sink, JStr ''x''] @ [JNull]))) =
     this_logfileOutput demo_app \<and>
   this_logfileOutput demo_app = LogfileOutput 1 ''/work/com.example.foo/log/common.log''"
proof -
  have a: "logfileOutput (get_output
      (assignAll demo_app ([JLogfileOutput demo_platform_sink, JStr ''x''] @ [JNull]))) =
     this_logfileOutput demo_app"
    using router_exclusive[OF demo_create, of "[JLogfileOutput demo_platform_sink, JStr ''x'']"]
    by (elim conjE)
  have b: "logfileOutput (get_output (assignAll demo_app [JLogfileOutput demo_platform_sink])) =
     demo_platform_sink"
    by (simp add: get_output_def)
  have c: "get_platformLogfileOutput (assignAll demo_app [JLogfileOutput demo_platform_sink]) =
     JLogfileOutput demo_platform_sink"
    by (simp add: get_platformLogfileOutput_def get_output_def)
  have d: "this_logfileOutput demo_app = LogfileOutput 1 ''/work/com.example.foo/log/common.log''"
    by (simp add: demo_app_def)
  from b c a d show ?thesis by (intro conjI)
qed

text \<open>
  The claim as stated, that the common sink is the tee's sink exactly when
  \<open>platformLogfileOutput\<close> is \<open>null\<close>, fails: the setter tests only
  \<open>instanceof LogfileOutput\<close>, so it accepts the object's own common sink, and then the
  tee's sink is the common sink while \<open>platformLogfileOutput\<close> is set.
\<close>

theorem common_sink_as_platform_sink:
  "Application demo_env demo_world ''/work'' (Some ''com.example.foo'') =
     (demo_created_world, Inr demo_app) \<and>
   snd (set_platformLogfileOutput demo_app (JLogfileOutput (this_logfileOutput demo_app))) =
     Inr () \<and>
   logfileOutput (get_output
      (assignAll demo_app [JLogfileOutput (this_logfileOutput demo_app)])) =
     this_logfileOutput demo_app \<and>
   get_platformLogfileOutput
      (assignAll demo_app [JLogfileOutput (this_logfileOutput demo_app)]) =
     JLogfileOutput (this_logfileOutput demo_app) \<and>
   get_platformLogfileOutput
      (assignAll demo_app [JLogfileOutput (this_logfileOutput demo_app)]) \<noteq> JNull"
proof -
  have a: "snd (set_platformLogfileOutput demo_app
             (JLogfileOutput (this_logfileOutput demo_app))) = Inr ()"
    by simp
  have b: "logfileOutput (get_output
      (assignAll demo_app [JLogfileOutput (this_logfileOutput demo_app)])) =
     this_logfileOutput demo_app"
    by (simp add: get_output_def)
  have c: "get_platformLogfileOutput
      (assignAll demo_app [JLogfileOutput (this_logfileOutput demo_app)]) =
     JLogfileOutput (this_logfileOutput demo_app)"
    by (simp add: get_platformLogfileOutput_def)
  have d: "get_platformLogfileOutput
      (assignAll demo_app [JLogfileOutput (this_logfileOutput demo_app)]) \<noteq> JNull"
    by (simp add: get_platformLogfileOutput_def)
  from demo_create a b c d show ?thesis by (intro conjI)
qed

text \<open>
  C7. Every write to \<open>output\<close> and to \<open>config\<close>, and every write to
  \<open>platformLogfileOutput\<close> of a value that is neither a \<open>LogfileOutput\<close> nor \<open>null\<close>,
  throws \<open>IllegalAccessException\<close> and leaves the object as it was.
\<close>

theorem illegal_writes:
  "set_output this v =
     (this, Inl (IllegalAccessException
        ''Attempting to write read-only property Application.output'')) \<and>
   set_config this v =
     (this, Inl (IllegalAccessException
        ''Attempting to write read-only property Application.config'')) \<and>
   ((\<forall>s. v \<noteq> JLogfileOutput s) \<and> v \<noteq> JNull \<longrightarrow>
      set_platformLogfileOutput this v =
        (this, Inl (IllegalAccessException
           ''Attempting invalid write to property Application.platformLogfileOutput'')))"
  by (cases v) (simp_all add: set_output_def set_config_def)

text \<open>Runs: one illegal write to each property.\<close>

theorem illegal_writes_witness:
  "set_output demo_app (JObject 9) =
     (demo_app, Inl (IllegalAccessException
        ''Attempting to write read-only property Application.output'')) \<and>
   set_config demo_app JNull =
     (demo_app, Inl (IllegalAccessException
        ''Attempting to write read-only property Application.config'')) \<and>
   set_platformLogfileOutput demo_app JUndefined =
     (demo_app, Inl (IllegalAccessException
        ''Attempting invalid write to property Application.platformLogfileOutput''))"
proof -
  have h: "(\<forall>s. JUndefined \<noteq> JLogfileOutput s) \<and> JUndefined \<noteq> JNull"
    by simp
  note a = illegal_writes[of demo_app "JObject 9", THEN conjunct1]
  note b = illegal_writes[of demo_app JNull, THEN conjunct2, THEN conjunct1]
  note c = illegal_writes[of demo_app JUndefined, THEN conjunct2, THEN conjunct2, THEN mp, OF h]
  from a b c show ?thesis by (intro conjI)
qed

text \<open>
  C8. A successful construction ends by running \<open>rm -f\<close> on \<open>logPath/common.log\<close> in the
  world the branch left behind and constructing the common sink on that path; the
  tee holds that sink and the terminal singleton, and \<open>platformLogfileOutput\<close> is
  \<open>null\<close>.
\<close>

theorem logging_bootstrap:
  assumes "Application env w cwd pid = (w', Inr app)"
  shows "new_LogfileOutput env (path_join env (this_logPath app) ''common.log'')
           (shell_rm_f env (path_join env (this_logPath app) ''common.log'')
              (fst (branch env w cwd pid)))
         = (w', Inr (this_logfileOutput app)) \<and>
         get_output app =
           new_OutputTee (this_logfileOutput app) (TerminalOutput_getInstance env) \<and>
         logfileOutput (get_output app) = this_logfileOutput app \<and>
         terminalOutput (get_output app) = TerminalOutput_getInstance env \<and>
         get_platformLogfileOutput app = JNull"
proof -
  from Application_Inr_D[OF assms] obtain w1 this where
    br: "branch env w cwd pid = (w1, Inr this)" and
    sl: "setupLogging env w1 this = (w', Inr app)"
    by blast
  have "membersOf app = this" using sl by (rule setupLogging_Inr_D(2))
  then have lp: "this_logPath this = this_logPath app"
    by (auto simp: membersOf_def)
  have "new_LogfileOutput env (path_join env (this_logPath app) ''common.log'')
           (shell_rm_f env (path_join env (this_logPath app) ''common.log'') w1)
         = (w', Inr (this_logfileOutput app))"
    using setupLogging_Inr_D(1)[OF sl] lp by simp
  moreover have "fst (branch env w cwd pid) = w1" using br by simp
  ultimately show ?thesis
    using setupLogging_Inr_D(3,4)[OF sl]
    by (simp add: get_output_def get_platformLogfileOutput_def new_OutputTee_def)
qed

text \<open>A run: loading the project removes the stale logfile and opens sink 2.\<close>

theorem logging_bootstrap_witness:
  "path_join demo_env (this_logPath demo_loaded_app) ''common.log'' =
     ''/work/com.example.foo/log/common.log'' \<and>
   ''/work/com.example.foo/log/common.log'' \<in> set (fs_files demo_created_world) \<and>
   ''/work/com.example.foo/log/common.log'' \<notin>
     set (fs_files (shell_rm_f demo_env ''/work/com.example.foo/log/common.log''
                      demo_created_world)) \<and>
   new_LogfileOutput demo_env ''/work/com.example.foo/log/common.log''
     (shell_rm_f demo_env ''/work/com.example.foo/log/common.log'' demo_created_world) =
     (demo_loaded_world, Inr (this_logfileOutput demo_loaded_app)) \<and>
   this_logfileOutput demo_loaded_app =
     LogfileOutput 2 ''/work/com.example.foo/log/common.log'' \<and>
   get_output demo_loaded_app =
     new_OutputTee (this_logfileOutput demo_loaded_app) (TerminalOutput 0) \<and>
   get_platformLogfileOutput demo_loaded_app = JNull"
proof -
  have lp: "path_join demo_env (this_logPath demo_loaded_app) ''common.log'' =
     ''/work/com.example.foo/log/common.log''"
    by code_simp
  have br: "fst (branch demo_env demo_created_world ''/work/com.example.foo'' None) =
     demo_created_world"
    by code_simp
  have t: "TerminalOutput_getInstance demo_env = TerminalOutput 0"
    by code_simp
  have stale: "''/work/com.example.foo/log/common.log'' \<in> set (fs_files demo_created_world)"
    by code_simp
  have gone: "''/work/com.example.foo/log/common.log'' \<notin>
     set (fs_files (shell_rm_f demo_env ''/work/com.example.foo/log/common.log''
                      demo_created_world))"
    by code_simp
  have sink: "this_logfileOutput demo_loaded_app =
     LogfileOutput 2 ''/work/com.example.foo/log/common.log''"
    by code_simp
  note boot = logging_bootstrap[OF demo_load, unfolded lp br t]
  from lp stale gone boot[THEN conjunct1] sink boot[THEN conjunct2, THEN conjunct1]
    boot[THEN conjunct2, THEN conjunct2, THEN conjunct2, THEN conjunct2]
  show ?thesis by (intro conjI)
qed



text \<open>
  C10. An assignment to \<open>platformLogfileOutput\<close>, accepted or rejected, changes at most
  the \<open>platformLogfileOutput\<close> member and the tee's logfile sink: the package id, the
  five paths, the common sink and the tee's terminal sink are what they were.
\<close>

theorem platformLogfileOutput_setter_frame:
  "membersOf (fst (set_platformLogfileOutput this v)) = membersOf this \<and>
   this_logfileOutput (fst (set_platformLogfileOutput this v)) = this_logfileOutput this \<and>
   terminalOutput (get_output (fst (set_platformLogfileOutput this v))) =
     terminalOutput (get_output this) \<and>
   (\<exists>platform logfile.
      fst (set_platformLogfileOutput this v) =
        this\<lparr>this_platformLogfileOutput := platform,
               this_output := (get_output this)\<lparr>logfileOutput := logfile\<rparr>\<rparr>)"
proof -
  have unchanged: "this = this\<lparr>this_platformLogfileOutput := this_platformLogfileOutput this,
               this_output := (get_output this)\<lparr>logfileOutput := logfileOutput (get_output this)\<rparr>\<rparr>"
    by (simp add: get_output_def)
  have other: "\<exists>platform logfile.
      fst (set_platformLogfileOutput this v) =
        this\<lparr>this_platformLogfileOutput := platform,
               this_output := (get_output this)\<lparr>logfileOutput := logfile\<rparr>\<rparr>"
    if "fst (set_platformLogfileOutput this v) = this"
  proof (intro exI)
    show "fst (set_platformLogfileOutput this v) =
        this\<lparr>this_platformLogfileOutput := this_platformLogfileOutput this,
               this_output :=
                 (get_output this)\<lparr>logfileOutput := logfileOutput (get_output this)\<rparr>\<rparr>"
      using that unchanged by simp
  qed
  have "\<exists>platform logfile.
      fst (set_platformLogfileOutput this v) =
        this\<lparr>this_platformLogfileOutput := platform,
               this_output := (get_output this)\<lparr>logfileOutput := logfile\<rparr>\<rparr>"
  proof (cases v)
    case (JLogfileOutput s)
    then show ?thesis by auto
  next
    case JNull
    then show ?thesis by auto
  qed (rule other, simp)+
  then show ?thesis
    by (cases v) (simp_all add: membersOf_def get_output_def)
qed

text \<open>A run: assigning a platform sink.\<close>

theorem platformLogfileOutput_setter_frame_witness:
  "fst (set_platformLogfileOutput demo_app (JLogfileOutput demo_platform_sink)) =
     demo_app\<lparr>this_platformLogfileOutput := Some demo_platform_sink,
               this_output := (get_output demo_app)\<lparr>logfileOutput := demo_platform_sink\<rparr>\<rparr> \<and>
   membersOf (fst (set_platformLogfileOutput demo_app (JLogfileOutput demo_platform_sink))) =
     demo_members \<and>
   this_logfileOutput (fst (set_platformLogfileOutput demo_app (JLogfileOutput demo_platform_sink))) =
     LogfileOutput 1 ''/work/com.example.foo/log/common.log'' \<and>
   terminalOutput (get_output
     (fst (set_platformLogfileOutput demo_app (JLogfileOutput demo_platform_sink)))) =
     TerminalOutput 0"
proof -
  note frame = platformLogfileOutput_setter_frame[of demo_app "JLogfileOutput demo_platform_sink"]
  have m: "membersOf demo_app = demo_members"
    by (simp add: membersOf_def demo_app_def demo_members_def)
  have l: "this_logfileOutput demo_app = LogfileOutput 1 ''/work/com.example.foo/log/common.log''"
    by (simp add: demo_app_def)
  have t: "terminalOutput (get_output demo_app) = TerminalOutput 0"
    by (simp add: demo_app_def get_output_def)
  have e: "fst (set_platformLogfileOutput demo_app (JLogfileOutput demo_platform_sink)) =
     demo_app\<lparr>this_platformLogfileOutput := Some demo_platform_sink,
               this_output := (get_output demo_app)\<lparr>logfileOutput := demo_platform_sink\<rparr>\<rparr>"
    by simp
  from e frame[THEN conjunct1, unfolded m] frame[THEN conjunct2, THEN conjunct1, unfolded l]
    frame[THEN conjunct2, THEN conjunct2, THEN conjunct1, unfolded t]
  show ?thesis by (intro conjI)
qed

end
